theory Spec2Isabelle
  imports Complex_Main "HOL-Library.Word"
begin

section \<open>The segmentation service of the Virtual Tumor Board\<close>

text \<open>
  A shallow embedding of \<^verbatim>\<open>services/segmentation/main.py\<close> and
  \<^verbatim>\<open>services/segmentation/predictor.py\<close>: the run-length mask codec, the demo mask
  generators of both modules, contour extraction, the predictor life cycle and the
  \<^verbatim>\<open>/segment\<close> and \<^verbatim>\<open>/health\<close> endpoints.

  Python exceptions are values: \<open>py_error\<close> for the exceptions that Python and the
  libraries raise, \<open>exn\<close> for what a request handler can raise, which is one of those or
  FastAPI's \<^verbatim>\<open>HTTPException\<close>. A function that can raise returns a sum with the
  exception on the left. The message text of an exception is not modelled, its class
  and, for \<^verbatim>\<open>HTTPException\<close>, the status code and the structure of the detail are.
\<close>

subsection \<open>Exceptions\<close>

datatype py_error =
    ValueError
  | OverflowError
  | IndexError
  | BinasciiError
  | Cv2Error

datatype exn =
    Raised py_error
  | HTTPException nat detail
and detail =
    Must_provide_points_or_boxes
  | Failed_to_decode_slice py_error
  | Segmentation_failed exn

text \<open>
  FastAPI answers a request whose handler raises \<^verbatim>\<open>HTTPException\<close> with that status,
  and one whose handler raises anything else with status 500.
\<close>

fun status_code :: "exn + 'a \<Rightarrow> nat" where
  "status_code (Inr _) = 200"
| "status_code (Inl (HTTPException c _)) = c"
| "status_code (Inl (Raised _)) = 500"

subsection \<open>Arrays\<close>

text \<open>
  A numpy array is its shape and its elements in row-major order. A well-formed array
  has as many elements as the product of its shape.
\<close>

record 'a ndarray =
  shape :: "nat list"
  data :: "'a list"

definition flatten :: "'a ndarray \<Rightarrow> 'a list" where
  "flatten a = data a"

definition astype_uint8 :: "bool list \<Rightarrow> 8 word list" where
  "astype_uint8 bs = map (\<lambda>b. if b then 1 else 0) bs"

text \<open>\<^verbatim>\<open>np.diff\<close> on a \<^verbatim>\<open>uint8\<close> array: differences of neighbours, wrapping modulo 256.\<close>

definition np_diff :: "8 word list \<Rightarrow> 8 word list" where
  "np_diff ws = map (\<lambda>i. ws ! (i + 1) - ws ! i) [0..<length ws - 1]"

text \<open>\<^verbatim>\<open>np.where(changes != 0)[0]\<close>: the indices of the non-zero entries, ascending.\<close>

definition np_where_nonzero :: "8 word list \<Rightarrow> nat list" where
  "np_where_nonzero cs = filter (\<lambda>i. cs ! i \<noteq> 0) [0..<length cs]"

text \<open>
  \<^verbatim>\<open>np.frombuffer(decoded, dtype=np.float32)\<close>: the buffer must hold whole 4-byte
  elements. A \<^verbatim>\<open>float32\<close> is kept as its little-endian bit pattern; no function of
  the service reads the value of a slice element.
\<close>

fun float32_elements :: "8 word list \<Rightarrow> 32 word list" where
  "float32_elements (a # b # c # d # rest) =
     (ucast a + 256 * ucast b + 65536 * ucast c + 16777216 * ucast d) # float32_elements rest"
| "float32_elements _ = []"

definition np_frombuffer :: "8 word list \<Rightarrow> py_error + 32 word list" where
  "np_frombuffer decoded =
     (if length decoded mod 4 \<noteq> 0 then Inl ValueError else Inr (float32_elements decoded))"

text \<open>
  \<^verbatim>\<open>arr.reshape(shape)\<close>: at most one negative entry of the shape stands for the
  dimension that is inferred; the element count must fit.
\<close>

definition np_reshape :: "'a list \<Rightarrow> int list \<Rightarrow> py_error + 'a ndarray" where
  "np_reshape arr dims =
     (let known = prod_list (filter (\<lambda>d. 0 \<le> d) dims);
          size = int (length arr)
      in if length (filter (\<lambda>d. d < 0) dims) > 1 then Inl ValueError
         else if length (filter (\<lambda>d. d < 0) dims) = 1 then
           (if known = 0 \<or> size mod known \<noteq> 0 then Inl ValueError
            else Inr \<lparr>shape = map (\<lambda>d. nat (if d < 0 then size div known else d)) dims,
                      data = arr\<rparr>)
         else if size \<noteq> known then Inl ValueError
         else Inr \<lparr>shape = map nat dims, data = arr\<rparr>)"

subsection \<open>The platform\<close>

text \<open>
  The service runs on libraries that are not part of the repository: Python's
  \<^verbatim>\<open>float\<close> and numpy's \<^verbatim>\<open>float64\<close> arithmetic, \<^verbatim>\<open>base64.b64decode\<close>, numpy's global
  random generator and OpenCV. They are parameters of the model, collected in one
  record, so that every theorem holds for every implementation of them. \<open>'f\<close> is the
  type of floats and \<open>'g\<close> the type of generator states.
  \<^item> \<open>f_of_int\<close> converts an integer to a float; \<open>f_dec m k\<close> is the literal written
    \<open>m / 10 ^ k\<close> (so \<open>f_dec 7 1\<close> is \<^verbatim>\<open>0.7\<close>); \<open>int_truediv\<close> is \<^verbatim>\<open>/\<close> on two integers;
  \<^item> \<open>f_square\<close> is \<^verbatim>\<open>** 2\<close>; \<open>f_le\<close> and \<open>f_lt\<close> are \<^verbatim>\<open><=\<close> and \<^verbatim>\<open><\<close>;
    \<open>f_int\<close> is \<^verbatim>\<open>int(x)\<close>, which raises on a float that is not finite;
  \<^item> \<open>rng_seed n\<close> is the generator state after \<^verbatim>\<open>np.random.seed(n)\<close> for a valid
    seed, and \<open>rng_double\<close> draws one sample in \<open>[0, 1)\<close> and advances the state;
  \<^item> \<open>cv2\<close> is \<open>None\<close> when \<^verbatim>\<open>import cv2\<close> fails, and otherwise
    \<^verbatim>\<open>cv2.findContours(_, RETR_EXTERNAL, CHAIN_APPROX_SIMPLE)\<close>, which gives the
    points of each outer contour.
\<close>

record ('f, 'g) platform =
  b64decode :: "string \<Rightarrow> py_error + 8 word list"
  f_of_int :: "int \<Rightarrow> 'f"
  f_dec :: "int \<Rightarrow> nat \<Rightarrow> 'f"
  int_truediv :: "int \<Rightarrow> int \<Rightarrow> 'f"
  f_add :: "'f \<Rightarrow> 'f \<Rightarrow> 'f"
  f_sub :: "'f \<Rightarrow> 'f \<Rightarrow> 'f"
  f_mul :: "'f \<Rightarrow> 'f \<Rightarrow> 'f"
  f_div :: "'f \<Rightarrow> 'f \<Rightarrow> 'f"
  f_square :: "'f \<Rightarrow> 'f"
  f_le :: "'f \<Rightarrow> 'f \<Rightarrow> bool"
  f_lt :: "'f \<Rightarrow> 'f \<Rightarrow> bool"
  f_int :: "'f \<Rightarrow> py_error + int"
  rng_seed :: "nat \<Rightarrow> 'g"
  rng_double :: "'g \<Rightarrow> 'f \<times> 'g"
  cv2 :: "(bool ndarray \<Rightarrow> py_error + (int \<times> int) list list) option"

text \<open>
  \<^verbatim>\<open>np.random.seed(n)\<close> accepts the integers from 0 to \<open>2^32 - 1\<close> and raises
  \<^verbatim>\<open>ValueError\<close> on every other one.
\<close>

definition np_random_seed :: "('f, 'g) platform \<Rightarrow> int \<Rightarrow> py_error + 'g" where
  "np_random_seed P n =
     (if 0 \<le> n \<and> n < 2 ^ 32 then Inr (rng_seed P (nat n)) else Inl ValueError)"

text \<open>\<^verbatim>\<open>np.random.random((H, W))\<close> fills the array with \<open>H * W\<close> successive samples.\<close>

fun np_random_random :: "('f, 'g) platform \<Rightarrow> 'g \<Rightarrow> nat \<Rightarrow> 'f list \<times> 'g" where
  "np_random_random P g 0 = ([], g)"
| "np_random_random P g (Suc k) =
     (case rng_double P g of (r, g') \<Rightarrow>
        (case np_random_random P g' k of (rs, g'') \<Rightarrow> (r # rs, g'')))"

subsection \<open>Requests and responses (the pydantic models)\<close>

text \<open>
  The fields \<^verbatim>\<open>x\<close>, \<^verbatim>\<open>y\<close> of \<^verbatim>\<open>PointPrompt\<close> and \<^verbatim>\<open>x1\<close>, \<^verbatim>\<open>y1\<close>, \<^verbatim>\<open>x2\<close>, \<^verbatim>\<open>y2\<close> of
  \<^verbatim>\<open>BoxPrompt\<close> carry a prefix here, since a record field is a constant of the theory.
\<close>

record 'f PointPrompt =
  pt_x :: 'f
  pt_y :: 'f
  label :: int

record 'f BoxPrompt =
  box_x1 :: 'f
  box_y1 :: 'f
  box_x2 :: 'f
  box_y2 :: 'f

record 'f SegmentationRequest =
  slice_data :: string
  slice_shape :: "int list"
  points :: "'f PointPrompt list option"
  boxes :: "'f BoxPrompt list option"
  window_center :: "'f option"
  window_width :: "'f option"

record 'f SegmentationResponse =
  mask_rle :: "(int \<times> int) list"
  mask_shape :: "nat list"
  confidence :: 'f
  contours :: "'f list list list option"

record HealthResponse =
  health_status :: string
  health_model_loaded :: bool
  health_mode :: string

text \<open>Truth value of an optional list: \<^verbatim>\<open>None\<close> and \<^verbatim>\<open>[]\<close> are false.\<close>

fun truthy :: "'a list option \<Rightarrow> bool" where
  "truthy None = False"
| "truthy (Some xs) = (xs \<noteq> [])"

subsection \<open>The mask codec\<close>

text \<open>
  \<^verbatim>\<open>mask_to_rle\<close> (main.py, lines 143 to 164). A run is the pair of its value and its
  length, the two-element list \<^verbatim>\<open>[value, length]\<close> of the source.
\<close>

definition mask_to_rle :: "bool ndarray \<Rightarrow> (int \<times> int) list" where
  "mask_to_rle m =
     (let flat = astype_uint8 (flatten m) in
      if length flat = 0 then []
      else
        let changes = np_diff flat;
            change_indices = map (\<lambda>i. i + 1) (np_where_nonzero changes);
            starts = [0] @ change_indices;
            ends = change_indices @ [length flat]
        in map (\<lambda>(start, end). (uint (flat ! start), int end - int start)) (zip starts ends))"

text \<open>The error of the spec's decoder.\<close>

datatype codec_error = MalformedEncoding

text \<open>
  Modelled from the spec: the decoder of the mask codec is missing from the sources (the
  service only encodes). The spec's \<open>decode(rle, shape)\<close> validates that the lengths sum
  to \<open>H * W\<close>, a mismatch being the error \<open>MalformedEncoding\<close>, expands each
  \<open>(value, length)\<close> pair in order and reshapes row-major to \<open>(H, W)\<close>. A value other
  than 0 is read as a set pixel.
\<close>

definition decode :: "(int \<times> int) list \<Rightarrow> nat \<times> nat \<Rightarrow> codec_error + bool ndarray" where
  "decode rle hw =
     (case hw of (H, W) \<Rightarrow>
        if sum_list (map snd rle) \<noteq> int (H * W) then Inl MalformedEncoding
        else Inr \<lparr>shape = [H, W],
                  data = concat (map (\<lambda>(v, l). replicate (nat l) (v \<noteq> 0)) rle)\<rparr>)"

text \<open>No two neighbouring runs have the same value.\<close>

fun canonical :: "(int \<times> int) list \<Rightarrow> bool" where
  "canonical [] = True"
| "canonical [r] = True"
| "canonical (r # q # rs) = (fst r \<noteq> fst q \<and> canonical (q # rs))"

text \<open>
  Two auxiliary functions for the proofs about \<^verbatim>\<open>mask_to_rle\<close>: the runs cut out of
  \<open>flat\<close> by given start and end indices, and a scan of the flat mask from left to
  right that is shown to compute the same runs as the index arithmetic of the source.
\<close>

definition change_indices_of :: "8 word list \<Rightarrow> nat list" where
  "change_indices_of ws = map (\<lambda>i. i + 1) (np_where_nonzero (np_diff ws))"

definition runs_at :: "8 word list \<Rightarrow> nat list \<Rightarrow> nat list \<Rightarrow> (int \<times> int) list" where
  "runs_at flat starts ends =
     map (\<lambda>(start, end). (uint (flat ! start), int end - int start)) (zip starts ends)"

fun scan_runs :: "8 word list \<Rightarrow> (int \<times> int) list" where
  "scan_runs [] = []"
| "scan_runs [w] = [(uint w, 1)]"
| "scan_runs (w # v # ws) =
     (if w = v then (case scan_runs (v # ws) of [] \<Rightarrow> [] | (u, l) # rs \<Rightarrow> (u, l + 1) # rs)
      else (uint w, 1) # scan_runs (v # ws))"

subsection \<open>Decoding the slice\<close>

text \<open>\<^verbatim>\<open>decode_slice\<close> (main.py, lines 133 to 140): every exception becomes status 400.\<close>

definition decode_slice ::
  "('f, 'g) platform \<Rightarrow> string \<Rightarrow> int list \<Rightarrow> exn + 32 word ndarray" where
  "decode_slice P dat shp =
     (case b64decode P dat of
        Inl e \<Rightarrow> Inl (HTTPException 400 (Failed_to_decode_slice e))
      | Inr decoded \<Rightarrow>
          (case np_frombuffer decoded of
             Inl e \<Rightarrow> Inl (HTTPException 400 (Failed_to_decode_slice e))
           | Inr arr \<Rightarrow>
               (case np_reshape arr shp of
                  Inl e \<Rightarrow> Inl (HTTPException 400 (Failed_to_decode_slice e))
                | Inr a \<Rightarrow> Inr a)))"

subsection \<open>The demo mask of the endpoint layer\<close>

text \<open>
  The centre of the ellipse (main.py, lines 180 to 194): the first foreground point when
  the point list is not empty and has one, the slice centre when the point list is not
  empty and has none, the centre of the first box when there are no points but a box,
  and the slice centre otherwise.
\<close>

definition demo_center ::
  "('f, 'g) platform \<Rightarrow> int \<Rightarrow> int \<Rightarrow> 'f PointPrompt list option \<Rightarrow>
     'f BoxPrompt list option \<Rightarrow> 'f \<times> 'f" where
  "demo_center P H W pts bxs =
     (if truthy pts then
        (case filter (\<lambda>p. label p = 1) (the pts) of
           p # _ \<Rightarrow> (pt_x p, pt_y p)
         | [] \<Rightarrow> (int_truediv P W 2, int_truediv P H 2))
      else if truthy bxs then
        (let box = hd (the bxs)
         in (f_div P (f_add P (box_x1 box) (box_x2 box)) (f_of_int P 2),
             f_div P (f_add P (box_y1 box) (box_y2 box)) (f_of_int P 2)))
      else (int_truediv P W 2, int_truediv P H 2))"

text \<open>
  The distance field \<^verbatim>\<open>((x_grid - cx) / rx) ** 2 + ((y_grid - cy) / ry) ** 2\<close> over the
  grid of \<open>H\<close> rows and \<open>W\<close> columns, row-major. Dividing an array by zero does not raise
  in numpy; what it yields is up to \<open>f_div\<close>.
\<close>

definition dist_grid ::
  "('f, 'g) platform \<Rightarrow> nat \<Rightarrow> nat \<Rightarrow> 'f \<Rightarrow> 'f \<Rightarrow> int \<Rightarrow> int \<Rightarrow> 'f list" where
  "dist_grid P H W cx cy rx ry =
     concat (map (\<lambda>y_grid. map (\<lambda>x_grid.
         f_add P
           (f_square P (f_div P (f_sub P (f_of_int P (int x_grid)) cx) (f_of_int P rx)))
           (f_square P (f_div P (f_sub P (f_of_int P (int y_grid)) cy) (f_of_int P ry))))
       [0..<W]) [0..<H])"

text \<open>The argument of the seeding in both modules, \<^verbatim>\<open>int(cx * 100 + cy * 10)\<close>.\<close>

definition demo_seed :: "('f, 'g) platform \<Rightarrow> 'f \<Rightarrow> 'f \<Rightarrow> py_error + int" where
  "demo_seed P cx cy =
     f_int P (f_add P (f_mul P cx (f_of_int P 100)) (f_mul P cy (f_of_int P 10)))"

text \<open>
  \<^verbatim>\<open>mask[boundary] = (dist[boundary] + noise[boundary]) <= threshold\<close>, element by
  element.
\<close>

definition perturb ::
  "('f, 'g) platform \<Rightarrow> 'f \<Rightarrow> bool list \<Rightarrow> bool list \<Rightarrow> 'f list \<Rightarrow> 'f list \<Rightarrow> bool list" where
  "perturb P threshold base boundary dists noise =
     map (\<lambda>(b, bd, d, nz). if bd then f_le P (f_add P d nz) threshold else b)
       (zip base (zip boundary (zip dists noise)))"

text \<open>
  \<^verbatim>\<open>generate_demo_mask\<close> (main.py, lines 167 to 212). It takes the state of numpy's
  global generator and returns the new one. \<^verbatim>\<open>H, W = shape\<close> raises unless the shape
  has two entries, \<^verbatim>\<open>np.zeros((H, W))\<close> raises on a negative entry, \<^verbatim>\<open>int(...)\<close> on a
  float that is not finite, and \<^verbatim>\<open>np.random.seed\<close> on a seed out of range. The memory
  an array takes is not modelled.
\<close>

definition generate_demo_mask ::
  "('f, 'g) platform \<Rightarrow> 'g \<Rightarrow> int list \<Rightarrow> 'f PointPrompt list option \<Rightarrow>
     'f BoxPrompt list option \<Rightarrow> (py_error + bool ndarray) \<times> 'g" where
  "generate_demo_mask P g shp pts bxs =
     (case shp of
        [H, W] \<Rightarrow>
          if H < 0 \<or> W < 0 then (Inl ValueError, g)
          else
            (case demo_center P H W pts bxs of (cx, cy) \<Rightarrow>
               let rx = min W H div 6;
                   ry = min W H div 7;
                   dists = dist_grid P (nat H) (nat W) cx cy rx ry;
                   base = map (\<lambda>d. f_le P d (f_dec P 10 1)) dists
               in (case demo_seed P cx cy of
                     Inl e \<Rightarrow> (Inl e, g)
                   | Inr n \<Rightarrow>
                       (case np_random_seed P n of
                          Inl e \<Rightarrow> (Inl e, g)
                        | Inr g1 \<Rightarrow>
                            (case np_random_random P g1 (nat H * nat W) of (samples, g2) \<Rightarrow>
                               let noise = map (\<lambda>r. f_mul P r (f_dec P 3 1)) samples;
                                   boundary = map (\<lambda>d. f_lt P (f_dec P 7 1) d \<and>
                                                        f_lt P d (f_dec P 13 1)) dists
                               in (Inr \<lparr>shape = [nat H, nat W],
                                        data = perturb P (f_dec P 11 1) base boundary dists noise\<rparr>,
                                   g2)))))
      | _ \<Rightarrow> (Inl ValueError, g))"


subsection \<open>Contour extraction\<close>

text \<open>
  \<^verbatim>\<open>find_contours\<close> (main.py, lines 215 to 235). \<^verbatim>\<open>contour.squeeze().astype(float).tolist()\<close>
  is a flat pair for a contour of one point, which the source wraps into a list, and the
  list of pairs for a longer one; \<^verbatim>\<open>points[0]\<close> raises on a contour without points.
  Only the failing import is caught. The mask is handed to \<open>cv2\<close> as it is, the scaling
  to 0 and 255 being part of the call.
\<close>

definition contour_points :: "('f, 'g) platform \<Rightarrow> (int \<times> int) list \<Rightarrow> py_error + 'f list list" where
  "contour_points P contour =
     (case contour of
        [] \<Rightarrow> Inl IndexError
      | [(u, v)] \<Rightarrow> Inr [[f_of_int P u, f_of_int P v]]
      | _ \<Rightarrow> Inr (map (\<lambda>(u, v). [f_of_int P u, f_of_int P v]) contour))"

fun collect_contours ::
  "('f, 'g) platform \<Rightarrow> (int \<times> int) list list \<Rightarrow> py_error + 'f list list list" where
  "collect_contours P [] = Inr []"
| "collect_contours P (contour # rest) =
     (case contour_points P contour of
        Inl e \<Rightarrow> Inl e
      | Inr pts \<Rightarrow>
          (case collect_contours P rest of
             Inl e \<Rightarrow> Inl e
           | Inr result \<Rightarrow> Inr (pts # result)))"

definition find_contours :: "('f, 'g) platform \<Rightarrow> bool ndarray \<Rightarrow> py_error + 'f list list list" where
  "find_contours P m =
     (case cv2 P of
        None \<Rightarrow> Inr []
      | Some findContours \<Rightarrow>
          (case findContours m of
             Inl e \<Rightarrow> Inl e
           | Inr cs \<Rightarrow> collect_contours P cs))"

subsection \<open>The predictor\<close>

text \<open>
  \<^verbatim>\<open>MedSAM3Predictor\<close> (predictor.py). The torch module is opaque. What the process finds
  when it starts is a record: the two import flags, the environment variable, the file
  system, the devices, and how the attempt to load a checkpoint ends, one outcome for
  each way through the \<^verbatim>\<open>try\<close> block of \<^verbatim>\<open>load_model\<close>.
\<close>

datatype torch_module = Torch_module

record MedSAM3Predictor =
  device :: string
  image_size :: "nat option"
  model :: "torch_module option"
  model_loaded :: bool

datatype load_outcome =
    Raises_before_build
  | Sam3_ImportError
  | Build_returns_None
  | Raises_after_build
  | Weights_loaded

record host =
  HAS_PREDICTOR :: bool
  HAS_TORCH :: bool
  CHECKPOINT_PATH :: "string option"
  path_exists :: "string \<Rightarrow> bool"
  cuda_is_available :: bool
  mps_is_available :: bool
  load_attempt :: "string \<Rightarrow> load_outcome"

text \<open>\<^verbatim>\<open>load_model\<close> (predictor.py, lines 68 to 140): the predictor after the call and the result.\<close>

definition load_model :: "host \<Rightarrow> MedSAM3Predictor \<Rightarrow> string \<Rightarrow> MedSAM3Predictor \<times> bool" where
  "load_model h self checkpoint_path =
     (if \<not> HAS_TORCH h then (self, False)
      else if \<not> path_exists h checkpoint_path then (self, False)
      else
        (case load_attempt h checkpoint_path of
           Raises_before_build \<Rightarrow> (self, False)
         | Sam3_ImportError \<Rightarrow> (self, False)
         | Build_returns_None \<Rightarrow> (self\<lparr>model := None\<rparr>, False)
         | Raises_after_build \<Rightarrow> (self\<lparr>model := Some Torch_module\<rparr>, False)
         | Weights_loaded \<Rightarrow>
             (self\<lparr>model := Some Torch_module, model_loaded := True\<rparr>, True)))"

text \<open>\<^verbatim>\<open>MedSAM3Predictor.__init__\<close> (predictor.py, lines 35 to 66).\<close>

definition init :: "host \<Rightarrow> string option \<Rightarrow> string option \<Rightarrow> MedSAM3Predictor" where
  "init h checkpoint_path dev =
     (if \<not> HAS_TORCH h then
        \<lparr>device = ''cpu'', image_size = None, model = None, model_loaded = False\<rparr>
      else
        let d = (case dev of
                   Some d' \<Rightarrow> d'
                 | None \<Rightarrow>
                     if cuda_is_available h then ''cuda''
                     else if mps_is_available h then ''mps''
                     else ''cpu'');
            self = \<lparr>device = d, image_size = Some 1008, model = None, model_loaded = False\<rparr>
        in if truthy checkpoint_path then fst (load_model h self (the checkpoint_path))
           else self)"

text \<open>
  The prompt dictionary that the endpoint builds: each of the keys \<^verbatim>\<open>"points"\<close>,
  \<^verbatim>\<open>"labels"\<close> and \<^verbatim>\<open>"boxes"\<close> is present or not.
\<close>

record 'f prompt =
  prompt_points :: "('f \<times> 'f) list option"
  prompt_labels :: "int list option"
  prompt_boxes :: "('f \<times> 'f \<times> 'f \<times> 'f) list option"

text \<open>
  The foreground points of \<^verbatim>\<open>_generate_demo_mask\<close>: the points whose label, read at the
  index of the point, is 1. Reading past the end of the labels raises.
\<close>

fun fg_points :: "('f \<times> 'f) list \<Rightarrow> int list \<Rightarrow> py_error + ('f \<times> 'f) list" where
  "fg_points [] ls = Inr []"
| "fg_points (p # ps) [] = Inl IndexError"
| "fg_points (p # ps) (l # ls) =
     (case fg_points ps ls of
        Inl e \<Rightarrow> Inl e
      | Inr r \<Rightarrow> Inr (if l = 1 then p # r else r))"

definition predictor_center ::
  "('f, 'g) platform \<Rightarrow> nat \<Rightarrow> nat \<Rightarrow> 'f prompt \<Rightarrow> py_error + 'f \<times> 'f" where
  "predictor_center P H W pr =
     (if truthy (prompt_points pr) then
        (let pts = the (prompt_points pr);
             labels = (case prompt_labels pr of
                         None \<Rightarrow> replicate (length pts) 1
                       | Some ls \<Rightarrow> ls)
         in case fg_points pts labels of
              Inl e \<Rightarrow> Inl e
            | Inr (p # _) \<Rightarrow> Inr p
            | Inr [] \<Rightarrow> Inr (int_truediv P (int W) 2, int_truediv P (int H) 2))
      else if truthy (prompt_boxes pr) then
        (case hd (the (prompt_boxes pr)) of (bx1, by1, bx2, by2) \<Rightarrow>
           Inr (f_div P (f_add P bx1 bx2) (f_of_int P 2),
                f_div P (f_add P by1 by2) (f_of_int P 2)))
      else Inr (int_truediv P (int W) 2, int_truediv P (int H) 2))"

text \<open>
  \<^verbatim>\<open>MedSAM3Predictor._generate_demo_mask\<close> (predictor.py, lines 172 to 215). The shape is
  the shape of an array, so it has no negative entry. The seed is reduced modulo \<open>2^31\<close>.
\<close>

definition predictor_generate_demo_mask ::
  "('f, 'g) platform \<Rightarrow> 'g \<Rightarrow> nat list \<Rightarrow> 'f prompt \<Rightarrow> (py_error + bool ndarray) \<times> 'g" where
  "predictor_generate_demo_mask P g shp pr =
     (case shp of
        [H, W] \<Rightarrow>
          (case predictor_center P H W pr of
             Inl e \<Rightarrow> (Inl e, g)
           | Inr (cx, cy) \<Rightarrow>
               let rx = min (int H) (int W) div 6;
                   ry = min (int H) (int W) div 7;
                   dists = dist_grid P H W cx cy rx ry;
                   base_mask = map (\<lambda>d. f_le P d (f_dec P 10 1)) dists
               in (case demo_seed P cx cy of
                     Inl e \<Rightarrow> (Inl e, g)
                   | Inr n \<Rightarrow>
                       (case np_random_seed P (n mod 2 ^ 31) of
                          Inl e \<Rightarrow> (Inl e, g)
                        | Inr g1 \<Rightarrow>
                            (case np_random_random P g1 (H * W) of (samples, g2) \<Rightarrow>
                               let noise = map (\<lambda>r. f_mul P r (f_dec P 25 2)) samples;
                                   boundary = map (\<lambda>d. f_lt P (f_dec P 75 2) d \<and>
                                                        f_lt P d (f_dec P 125 2)) dists
                               in (Inr \<lparr>shape = [H, W],
                                        data = perturb P (f_dec P 11 1) base_mask boundary
                                                 dists noise\<rparr>,
                                   g2)))))
      | _ \<Rightarrow> (Inl ValueError, g))"

text \<open>
  \<^verbatim>\<open>MedSAM3Predictor.segment_slice\<close> (predictor.py, lines 142 to 170): both branches
  return the demo mask for \<^verbatim>\<open>slice_data.shape[:2]\<close>.
\<close>

definition predictor_segment_slice ::
  "('f, 'g) platform \<Rightarrow> 'g \<Rightarrow> MedSAM3Predictor \<Rightarrow> 32 word ndarray \<Rightarrow> 'f prompt \<Rightarrow>
     'f option \<Rightarrow> 'f option \<Rightarrow> (py_error + bool ndarray) \<times> 'g" where
  "predictor_segment_slice P g self slice_arr pr wc ww =
     (let original_shape = take 2 (shape slice_arr)
      in if \<not> model_loaded self \<or> model self = None
         then predictor_generate_demo_mask P g original_shape pr
         else predictor_generate_demo_mask P g original_shape pr)"

subsection \<open>The endpoints\<close>

text \<open>
  The state of the process: the global \<^verbatim>\<open>predictor\<close> of main.py and the state of numpy's
  global random generator.
\<close>

record 'g server =
  predictor :: "MedSAM3Predictor option"
  np_random :: 'g

text \<open>\<^verbatim>\<open>lifespan\<close> (main.py, lines 35 to 52): the value of \<^verbatim>\<open>predictor\<close> after start-up.\<close>

definition lifespan :: "host \<Rightarrow> MedSAM3Predictor option" where
  "lifespan h =
     (if HAS_PREDICTOR h \<and> truthy (CHECKPOINT_PATH h) \<and> path_exists h (the (CHECKPOINT_PATH h))
      then Some (init h (CHECKPOINT_PATH h) None)
      else None)"

text \<open>
  \<^verbatim>\<open>predictor is not None and getattr(predictor, "model_loaded", False)\<close>, the test of
  both \<^verbatim>\<open>health_check\<close> and \<^verbatim>\<open>segment_slice\<close>.
\<close>

definition predictor_is_loaded :: "'g server \<Rightarrow> bool" where
  "predictor_is_loaded st = (case predictor st of None \<Rightarrow> False | Some p \<Rightarrow> model_loaded p)"

text \<open>
  \<^verbatim>\<open>health_check\<close> (main.py, lines 241 to 249). An object of a class that defines neither
  \<^verbatim>\<open>__bool__\<close> nor \<^verbatim>\<open>__len__\<close> is true, so \<^verbatim>\<open>"production" if predictor else "demo"\<close>
  asks whether there is a predictor object.
\<close>

definition health_check :: "'g server \<Rightarrow> HealthResponse" where
  "health_check st =
     \<lparr>health_status = ''healthy'',
      health_model_loaded = predictor_is_loaded st,
      health_mode = (if predictor st \<noteq> None then ''production'' else ''demo'')\<rparr>"

text \<open>The prompt dictionary built in the model branch of \<^verbatim>\<open>segment_slice\<close>.\<close>

definition build_prompt :: "'f SegmentationRequest \<Rightarrow> 'f prompt" where
  "build_prompt request =
     \<lparr>prompt_points =
        (if truthy (points request)
         then Some (map (\<lambda>p. (pt_x p, pt_y p)) (the (points request))) else None),
      prompt_labels =
        (if truthy (points request) then Some (map label (the (points request))) else None),
      prompt_boxes =
        (if truthy (boxes request)
         then Some (map (\<lambda>b. (box_x1 b, box_y1 b, box_x2 b, box_y2 b)) (the (boxes request)))
         else None)\<rparr>"

text \<open>
  The end of \<^verbatim>\<open>segment_slice\<close> (main.py, lines 294 to 305): encode the mask, find the
  contours, build the response. The contours are always passed to the response.
\<close>

definition respond ::
  "('f, 'g) platform \<Rightarrow> bool ndarray \<Rightarrow> 'f \<Rightarrow> exn + 'f SegmentationResponse" where
  "respond P m conf =
     (let rle = mask_to_rle m
      in case find_contours P m of
           Inl e \<Rightarrow> Inl (Raised e)
         | Inr cs \<Rightarrow>
             Inr \<lparr>mask_rle = rle, mask_shape = shape m, confidence = conf,
                  contours = Some cs\<rparr>)"

text \<open>
  \<^verbatim>\<open>segment_slice\<close> (main.py, lines 258 to 305). In the model branch every exception,
  the \<^verbatim>\<open>HTTPException\<close> of \<^verbatim>\<open>decode_slice\<close> included, is caught and raised again as
  status 500; the demo branch is outside every \<^verbatim>\<open>try\<close> and never reads \<^verbatim>\<open>slice_data\<close>.
\<close>

definition segment_slice ::
  "('f, 'g) platform \<Rightarrow> 'g server \<Rightarrow> 'f SegmentationRequest \<Rightarrow>
     (exn + 'f SegmentationResponse) \<times> 'g server" where
  "segment_slice P st request =
     (if \<not> truthy (points request) \<and> \<not> truthy (boxes request)
      then (Inl (HTTPException 400 Must_provide_points_or_boxes), st)
      else
        let shp = slice_shape request
        in if predictor_is_loaded st then
             (case decode_slice P (slice_data request) shp of
                Inl e \<Rightarrow> (Inl (HTTPException 500 (Segmentation_failed e)), st)
              | Inr slice_arr \<Rightarrow>
                  (case predictor_segment_slice P (np_random st) (the (predictor st)) slice_arr
                          (build_prompt request) (window_center request) (window_width request) of
                     (Inl e, g) \<Rightarrow>
                       (Inl (HTTPException 500 (Segmentation_failed (Raised e))),
                        st\<lparr>np_random := g\<rparr>)
                   | (Inr m, g) \<Rightarrow> (respond P m (f_dec P 85 2), st\<lparr>np_random := g\<rparr>)))
           else
             (case generate_demo_mask P (np_random st) shp (points request) (boxes request) of
                (Inl e, g) \<Rightarrow> (Inl (Raised e), st\<lparr>np_random := g\<rparr>)
              | (Inr m, g) \<Rightarrow> (respond P m (f_dec P 75 2), st\<lparr>np_random := g\<rparr>)))"

subsection \<open>The centre as the specification words it\<close>

text \<open>
  The centre selection in the words of the specification, for comparison with
  \<open>demo_center\<close>: the first foreground point if there is one, else the centre of the
  first box if there is a box, else the slice centre.
\<close>

definition claimed_center ::
  "('f, 'g) platform \<Rightarrow> int \<Rightarrow> int \<Rightarrow> 'f PointPrompt list option \<Rightarrow>
     'f BoxPrompt list option \<Rightarrow> 'f \<times> 'f" where
  "claimed_center P H W pts bxs =
     (case filter (\<lambda>p. label p = 1) (case pts of None \<Rightarrow> [] | Some ps \<Rightarrow> ps) of
        p # _ \<Rightarrow> (pt_x p, pt_y p)
      | [] \<Rightarrow>
          (case (case bxs of None \<Rightarrow> [] | Some bs \<Rightarrow> bs) of
             box # _ \<Rightarrow>
               (f_div P (f_add P (box_x1 box) (box_x2 box)) (f_of_int P 2),
                f_div P (f_add P (box_y1 box) (box_y2 box)) (f_of_int P 2))
           | [] \<Rightarrow> (int_truediv P W 2, int_truediv P H 2)))"

subsection \<open>A reference platform\<close>

text \<open>
  One implementation of the platform, to run the model on concrete requests: floats are
  exact rationals, with \<open>None\<close> for every value that is not a finite number (division
  by zero yields it, every comparison with it is false, and \<^verbatim>\<open>int\<close> raises on it);
  the base64 decoder skips characters outside the alphabet and checks the padding; the
  generator is a linear congruential one; OpenCV is not installed.
\<close>

definition b64_alphabet :: string where
  "b64_alphabet = ''ABCDEFGHIJKLMNOPQRSTUVWXYZabcdefghijklmnopqrstuvwxyz0123456789+/''"

fun index_in :: "char list \<Rightarrow> char \<Rightarrow> nat option" where
  "index_in [] c = None"
| "index_in (a # as) c = (if a = c then Some 0 else map_option Suc (index_in as c))"

fun sextets_to_bytes :: "nat list \<Rightarrow> 8 word list" where
  "sextets_to_bytes (a # b # c # d # rest) =
     of_nat (4 * a + b div 16) # of_nat (16 * (b mod 16) + c div 4) #
     of_nat (64 * (c mod 4) + d) # sextets_to_bytes rest"
| "sextets_to_bytes [a, b, c] = [of_nat (4 * a + b div 16), of_nat (16 * (b mod 16) + c div 4)]"
| "sextets_to_bytes [a, b] = [of_nat (4 * a + b div 16)]"
| "sextets_to_bytes _ = []"

definition ref_b64decode :: "string \<Rightarrow> py_error + 8 word list" where
  "ref_b64decode s =
     (let body = takeWhile (\<lambda>c. c \<noteq> CHR ''='') s;
          pads = length (filter (\<lambda>c. c = CHR ''='') (dropWhile (\<lambda>c. c \<noteq> CHR ''='') s));
          sextets = List.map_filter (index_in b64_alphabet) body;
          k = length sextets mod 4
      in if k = 1 \<or> (k = 2 \<and> pads < 2) \<or> (k = 3 \<and> pads < 1) then Inl BinasciiError
         else Inr (sextets_to_bytes sextets))"

fun lift2 :: "(rat \<Rightarrow> rat \<Rightarrow> 'a) \<Rightarrow> 'a \<Rightarrow> rat option \<Rightarrow> rat option \<Rightarrow> 'a" where
  "lift2 f z (Some a) (Some b) = f a b"
| "lift2 f z _ _ = z"

definition ref_platform :: "(rat option, int) platform" where
  "ref_platform =
     \<lparr>b64decode = ref_b64decode,
      f_of_int = (\<lambda>n. Some (of_int n)),
      f_dec = (\<lambda>m k. Some (of_int m / 10 ^ k)),
      int_truediv = (\<lambda>a b. if b = 0 then None else Some (of_int a / of_int b)),
      f_add = lift2 (\<lambda>a b. Some (a + b)) None,
      f_sub = lift2 (\<lambda>a b. Some (a - b)) None,
      f_mul = lift2 (\<lambda>a b. Some (a * b)) None,
      f_div = lift2 (\<lambda>a b. if b = 0 then None else Some (a / b)) None,
      f_square = map_option (\<lambda>r. r * r),
      f_le = lift2 (\<lambda>a b. a \<le> b) False,
      f_lt = lift2 (\<lambda>a b. a < b) False,
      f_int = (\<lambda>a. case a of
                      None \<Rightarrow> Inl ValueError
                    | Some r \<Rightarrow> Inr (if 0 \<le> r then \<lfloor>r\<rfloor> else - \<lfloor>- r\<rfloor>)),
      rng_seed = int,
      rng_double = (\<lambda>g. (Some (of_int ((1103515245 * g + 12345) mod 2 ^ 31 mod 1000) / 1000),
                         (1103515245 * g + 12345) mod 2 ^ 31)),
      cv2 = None\<rparr>"

subsection \<open>Concrete requests, servers and hosts\<close>

text \<open>
  The inputs at which the theorems below are run. The slice buffer \<^verbatim>\<open>AAAAAA==\<close> is the
  base64 text of four zero bytes, one \<^verbatim>\<open>float32\<close>: it fits the shape \<open>(1, 1)\<close> and no
  other shape used here. On a slice of fewer than six rows or columns the radii of the
  ellipse are 0, numpy's division by zero yields no finite number, and the demo mask has
  no set pixel whatever the generator draws.
\<close>

definition demo_request :: "rat option SegmentationRequest" where
  "demo_request =
     \<lparr>slice_data = ''AAAAAA=='', slice_shape = [4, 4],
      points = Some [\<lparr>pt_x = Some 1, pt_y = Some 1, label = 1\<rparr>], boxes = None,
      window_center = None, window_width = None\<rparr>"

definition negative_point_request :: "rat option SegmentationRequest" where
  "negative_point_request =
     \<lparr>slice_data = ''AAAAAA=='', slice_shape = [100, 100],
      points = Some [\<lparr>pt_x = Some (- 1), pt_y = Some (- 1), label = 1\<rparr>], boxes = None,
      window_center = None, window_width = None\<rparr>"

definition background_point_request :: "rat option SegmentationRequest" where
  "background_point_request =
     \<lparr>slice_data = ''AAAAAA=='', slice_shape = [100, 100],
      points = Some [\<lparr>pt_x = Some 10, pt_y = Some 10, label = 0\<rparr>],
      boxes = Some [\<lparr>box_x1 = Some 20, box_y1 = Some 20, box_x2 = Some 40, box_y2 = Some 40\<rparr>],
      window_center = None, window_width = None\<rparr>"

definition empty_request :: "rat option SegmentationRequest" where
  "empty_request =
     \<lparr>slice_data = ''AAAAAA=='', slice_shape = [1, 1], points = Some [], boxes = None,
      window_center = None, window_width = None\<rparr>"

definition seed_failure_request :: "rat option SegmentationRequest" where
  "seed_failure_request =
     \<lparr>slice_data = ''AAAAAA=='', slice_shape = [1, 1],
      points = Some [\<lparr>pt_x = Some (- 1), pt_y = Some (- 1), label = 1\<rparr>], boxes = None,
      window_center = None, window_width = None\<rparr>"

text \<open>A server without a predictor, and one whose predictor has loaded its weights.\<close>

definition demo_server :: "int server" where
  "demo_server = \<lparr>predictor = None, np_random = 7\<rparr>"

definition loaded_server :: "int server" where
  "loaded_server =
     \<lparr>predictor = Some \<lparr>device = ''cpu'', image_size = Some 1008, model = Some Torch_module,
                          model_loaded = True\<rparr>,
      np_random = 7\<rparr>"

text \<open>
  The reference platform with OpenCV installed; its contour finder is only asked about
  masks without a set pixel, in which there is no contour.
\<close>

definition empty_mask_finder :: "bool ndarray \<Rightarrow> py_error + (int \<times> int) list list" where
  "empty_mask_finder m = Inr (if list_ex (\<lambda>b. b) (data m) then [[(0, 0)]] else [])"

definition cv2_platform :: "(rat option, int) platform" where
  "cv2_platform = ref_platform\<lparr>cv2 := Some empty_mask_finder\<rparr>"

text \<open>
  A host on which PyTorch is installed and the checkpoint file exists, but the
  \<^verbatim>\<open>sam3\<close> package is missing, so that \<^verbatim>\<open>load_model\<close> prints that it is running in
  demo mode and returns \<^verbatim>\<open>False\<close>.
\<close>

definition failed_load_host :: host where
  "failed_load_host =
     \<lparr>HAS_PREDICTOR = True, HAS_TORCH = True, CHECKPOINT_PATH = Some ''weights/medsam3.ckpt'',
      path_exists = (\<lambda>p. p = ''weights/medsam3.ckpt''), cuda_is_available = False,
      mps_is_available = False, load_attempt = (\<lambda>p. Sam3_ImportError)\<rparr>"

section \<open>Verified properties\<close>

subsection \<open>The encoder scans the mask run by run\<close>

lemma np_diff_Cons2: "np_diff (w # v # ws) = (v - w) # np_diff (v # ws)"
proof -
  have "[0..<Suc (length ws)] = 0 # map Suc [0..<length ws]"
    by (simp add: upt_conv_Cons map_Suc_upt del: upt_Suc)
  then show ?thesis
    by (simp add: np_diff_def comp_def del: upt_Suc)
qed

lemma np_where_nonzero_Cons:
  "np_where_nonzero (c # cs) = (if c \<noteq> 0 then [0] else []) @ map Suc (np_where_nonzero cs)"
proof -
  have "[0..<Suc (length cs)] = 0 # map Suc [0..<length cs]"
    by (simp add: upt_conv_Cons map_Suc_upt del: upt_Suc)
  then show ?thesis
    by (simp add: np_where_nonzero_def filter_map comp_def del: upt_Suc)
qed

lemma change_indices_Cons2:
  "change_indices_of (w # v # ws) =
     (if w \<noteq> v then [1] else []) @ map Suc (change_indices_of (v # ws))"
  by (simp add: change_indices_of_def np_diff_Cons2 np_where_nonzero_Cons)

lemma change_indices_single: "change_indices_of [w] = []"
  by (simp add: change_indices_of_def np_diff_def np_where_nonzero_def)

lemma runs_at_shift: "runs_at (w # ws) (map Suc ss) (map Suc es) = runs_at ws ss es"
  by (simp add: runs_at_def zip_map_map comp_def case_prod_beta)

lemma runs_at_eq_scan:
  "ws \<noteq> [] \<Longrightarrow>
     runs_at ws (0 # change_indices_of ws) (change_indices_of ws @ [length ws]) = scan_runs ws"
proof (induction ws rule: scan_runs.induct)
  case 1
  then show ?case by simp
next
  case (2 w)
  show ?case by (simp add: change_indices_single runs_at_def)
next
  case (3 w v ws)
  let ?c = "change_indices_of (v # ws)"
  have ih: "scan_runs (v # ws) = runs_at (v # ws) (0 # ?c) (?c @ [Suc (length ws)])"
    using 3 by (cases "w = v") simp_all
  show ?case
  proof (cases "w = v")
    case False
    have "runs_at (w # v # ws) (0 # change_indices_of (w # v # ws))
            (change_indices_of (w # v # ws) @ [length (w # v # ws)]) =
        runs_at (w # v # ws) (0 # 1 # map Suc ?c) (1 # map Suc ?c @ [Suc (Suc (length ws))])"
      using False by (simp add: change_indices_Cons2)
    also have "\<dots> = (uint w, 1) #
        runs_at (w # v # ws) (map Suc (0 # ?c)) (map Suc (?c @ [Suc (length ws)]))"
      by (simp add: runs_at_def)
    also have "\<dots> = (uint w, 1) # scan_runs (v # ws)"
      by (simp only: runs_at_shift ih)
    finally show ?thesis using False by simp
  next
    case True
    have eq: "runs_at (w # v # ws) (0 # change_indices_of (w # v # ws))
            (change_indices_of (w # v # ws) @ [length (w # v # ws)]) =
        runs_at (w # v # ws) (0 # map Suc ?c) (map Suc ?c @ [Suc (Suc (length ws))])"
      using True by (simp add: change_indices_Cons2)
    show ?thesis
    proof (cases ?c)
      case Nil
      then show ?thesis using True eq ih by (simp add: runs_at_def)
    next
      case (Cons c cr)
      have "runs_at (w # v # ws) (0 # map Suc ?c) (map Suc ?c @ [Suc (Suc (length ws))]) =
          (uint w, int c + 1) #
          runs_at (w # v # ws) (map Suc (c # cr)) (map Suc (cr @ [Suc (length ws)]))"
        using Cons by (simp add: runs_at_def)
      also have "\<dots> = (uint w, int c + 1) # runs_at (v # ws) (c # cr) (cr @ [Suc (length ws)])"
        by (simp only: runs_at_shift)
      finally have a: "runs_at (w # v # ws) (0 # change_indices_of (w # v # ws))
            (change_indices_of (w # v # ws) @ [length (w # v # ws)]) =
          (uint w, int c + 1) # runs_at (v # ws) (c # cr) (cr @ [Suc (length ws)])"
        using eq by simp
      have b: "scan_runs (v # ws) =
          (uint v, int c) # runs_at (v # ws) (c # cr) (cr @ [Suc (length ws)])"
        using ih Cons by (simp add: runs_at_def)
      show ?thesis using True a b by simp
    qed
  qed
qed

lemma mask_to_rle_scan: "mask_to_rle m = scan_runs (astype_uint8 (data m))"
proof (cases "astype_uint8 (data m) = []")
  case True
  then show ?thesis by (simp add: mask_to_rle_def flatten_def)
next
  case False
  have "mask_to_rle m =
      runs_at (astype_uint8 (data m)) (0 # change_indices_of (astype_uint8 (data m)))
        (change_indices_of (astype_uint8 (data m)) @ [length (astype_uint8 (data m))])"
    using False
    by (simp add: mask_to_rle_def flatten_def runs_at_def change_indices_of_def Let_def)
  then show ?thesis using runs_at_eq_scan [OF False] by simp
qed

lemma scan_runs_Cons_shape: "\<exists>l rs. scan_runs (w # ws) = (uint w, l) # rs \<and> 1 \<le> l"
proof (induction ws arbitrary: w)
  case Nil
  show ?case by simp
next
  case (Cons v ws)
  from Cons [of v] obtain l rs where "scan_runs (v # ws) = (uint v, l) # rs" "1 \<le> l"
    by blast
  then show ?case by (cases "w = v") simp_all
qed

lemma scan_runs_expand:
  "concat (map (\<lambda>(v, l). replicate (nat l) (v \<noteq> 0)) (scan_runs ws)) = map (\<lambda>w. w \<noteq> 0) ws"
proof (induction ws rule: scan_runs.induct)
  case 1
  show ?case by simp
next
  case (2 w)
  show ?case by (simp add: uint_0_iff)
next
  case (3 w v ws)
  obtain l rs where sh: "scan_runs (v # ws) = (uint v, l) # rs" "1 \<le> l"
    using scan_runs_Cons_shape [of v ws] by blast
  show ?case
  proof (cases "w = v")
    case True
    have "nat (l + 1) = Suc (nat l)" using sh(2) by simp
    then show ?thesis using True 3 sh by (simp add: uint_0_iff)
  next
    case False
    then show ?thesis using 3 by (simp add: uint_0_iff)
  qed
qed

lemma scan_runs_sum: "sum_list (map snd (scan_runs ws)) = int (length ws)"
proof (induction ws rule: scan_runs.induct)
  case (3 w v ws)
  then show ?case by (cases "w = v") (auto split: list.splits)
qed simp_all

lemma scan_runs_positive: "r \<in> set (scan_runs ws) \<Longrightarrow> 1 \<le> snd r"
proof (induction ws arbitrary: r rule: scan_runs.induct)
  case (3 w v ws)
  obtain l rs where sh: "scan_runs (v # ws) = (uint v, l) # rs" "1 \<le> l"
    using scan_runs_Cons_shape [of v ws] by blast
  show ?case
  proof (cases "w = v")
    case True
    with 3 sh show ?thesis by (cases r) fastforce
  next
    case False
    with 3 show ?thesis by (cases r) fastforce
  qed
qed simp_all

lemma scan_runs_canonical: "canonical (scan_runs ws)"
proof (induction ws rule: scan_runs.induct)
  case (3 w v ws)
  obtain l rs where sh: "scan_runs (v # ws) = (uint v, l) # rs"
    using scan_runs_Cons_shape [of v ws] by blast
  show ?case
  proof (cases "w = v")
    case True
    with 3 sh show ?thesis by (cases rs) auto
  next
    case False
    with 3 sh show ?thesis by (auto simp: word_uint_eq_iff)
  qed
qed simp_all

lemma astype_uint8_truth: "map (\<lambda>w. w \<noteq> 0) (astype_uint8 bs) = bs"
  by (induction bs) (simp_all add: astype_uint8_def)

subsection \<open>Round trip and canonical form of the mask codec\<close>

text \<open>
  C1. RLE round trip: for every mask \<open>m\<close> of shape \<open>(H, W)\<close>, which includes the shapes
  \<open>(0, 0)\<close> and \<open>(1, 1)\<close> and the masks that are all zero or all one, decoding the runs
  that \<^verbatim>\<open>mask_to_rle\<close> produces, at the shape of \<open>m\<close>, gives \<open>m\<close> back.
\<close>

theorem rle_round_trip:
  assumes "shape m = [H, W]" and "length (data m) = H * W"
  shows "decode (mask_to_rle m) (H, W) = Inr m"
proof -
  have "length (astype_uint8 (data m)) = H * W"
    using assms(2) by (simp add: astype_uint8_def)
  then show ?thesis using assms(1)
    by (cases m) (simp add: decode_def mask_to_rle_scan scan_runs_sum scan_runs_expand
      astype_uint8_truth)
qed

theorem rle_round_trip_witness:
  "shape \<lparr>shape = [2, 3], data = [False, False, True, True, False, True]\<rparr> = [2, 3] \<and>
   length (data \<lparr>shape = [2, 3], data = [False, False, True, True, False, True]\<rparr>) = 2 * 3 \<and>
   decode (mask_to_rle \<lparr>shape = [2, 3], data = [False, False, True, True, False, True]\<rparr>) (2, 3)
     = Inr \<lparr>shape = [2, 3], data = [False, False, True, True, False, True]\<rparr>"
  using rle_round_trip
    [of "\<lparr>shape = [2, 3], data = [False, False, True, True, False, True]\<rparr>" 2 3]
  by simp

text \<open>
  C7. RLE canonical form: in the runs that \<^verbatim>\<open>mask_to_rle\<close> produces for a mask of
  shape \<open>(H, W)\<close>, no two neighbouring runs have the same value, every run has length at
  least 1, the lengths sum to \<open>H * W\<close>, and a mask without elements has no runs.
\<close>

theorem rle_canonical_form:
  assumes "shape m = [H, W]" and "length (data m) = H * W"
  shows "canonical (mask_to_rle m) \<and>
         (\<forall>r \<in> set (mask_to_rle m). 1 \<le> snd r) \<and>
         sum_list (map snd (mask_to_rle m)) = int (H * W) \<and>
         (H * W = 0 \<longrightarrow> mask_to_rle m = [])"
proof -
  have len: "length (astype_uint8 (data m)) = H * W"
    using assms(2) by (simp add: astype_uint8_def)
  have "canonical (mask_to_rle m)"
    by (simp add: mask_to_rle_scan scan_runs_canonical)
  moreover have "\<forall>r \<in> set (mask_to_rle m). 1 \<le> snd r"
    by (simp add: mask_to_rle_scan scan_runs_positive)
  moreover have "sum_list (map snd (mask_to_rle m)) = int (H * W)"
    using len by (simp add: mask_to_rle_scan scan_runs_sum)
  moreover have "H * W = 0 \<longrightarrow> mask_to_rle m = []"
    using len by (auto simp: mask_to_rle_scan)
  ultimately show ?thesis by blast
qed

theorem rle_canonical_form_witness:
  "shape \<lparr>shape = [2, 2], data = [True, True, False, True]\<rparr> = [2, 2] \<and>
   length (data \<lparr>shape = [2, 2], data = [True, True, False, True]\<rparr>) = 2 * 2 \<and>
   mask_to_rle \<lparr>shape = [2, 2], data = [True, True, False, True]\<rparr> = [(1, 2), (0, 1), (1, 1)] \<and>
   canonical (mask_to_rle \<lparr>shape = [2, 2], data = [True, True, False, True]\<rparr>) \<and>
   list_all (\<lambda>r. 1 \<le> snd r) (mask_to_rle \<lparr>shape = [2, 2], data = [True, True, False, True]\<rparr>) \<and>
   sum_list (map snd (mask_to_rle \<lparr>shape = [2, 2], data = [True, True, False, True]\<rparr>)) = 4"
  using rle_canonical_form [of "\<lparr>shape = [2, 2], data = [True, True, False, True]\<rparr>" 2 2]
  by (simp add: mask_to_rle_scan astype_uint8_def)

subsection \<open>The demo mask does not depend on the state of the generator\<close>

lemma generate_demo_mask_any_state:
  "fst (generate_demo_mask P g1 shp pts bxs) = fst (generate_demo_mask P g2 shp pts bxs)"
  by (simp add: generate_demo_mask_def Let_def split: list.splits sum.splits prod.splits)

lemma predictor_generate_demo_mask_any_state:
  "fst (predictor_generate_demo_mask P g1 shp pr) = fst (predictor_generate_demo_mask P g2 shp pr)"
  by (simp add: predictor_generate_demo_mask_def Let_def split: list.splits sum.splits prod.splits)

lemma predictor_is_loaded_np_random [simp]:
  "predictor_is_loaded (st\<lparr>np_random := g\<rparr>) = predictor_is_loaded st"
  by (simp add: predictor_is_loaded_def)

lemma segment_slice_demo:
  assumes "\<not> predictor_is_loaded st" and "truthy (points request) \<or> truthy (boxes request)"
  shows "fst (segment_slice P st request) =
     (case fst (generate_demo_mask P (np_random st) (slice_shape request) (points request)
                  (boxes request)) of
        Inl e \<Rightarrow> Inl (Raised e)
      | Inr m \<Rightarrow> respond P m (f_dec P 75 2))"
  using assms
  by (auto simp: segment_slice_def Let_def split: prod.splits sum.splits)

lemma segment_slice_invalid:
  assumes "\<not> truthy (points request)" and "\<not> truthy (boxes request)"
  shows "segment_slice P st request = (Inl (HTTPException 400 Must_provide_points_or_boxes), st)"
  using assms by (simp add: segment_slice_def)

lemma segment_slice_demo_agree:
  assumes "\<not> predictor_is_loaded st"
    and "slice_shape r1 = slice_shape r2" and "points r1 = points r2" and "boxes r1 = boxes r2"
  shows "fst (segment_slice P st r1) = fst (segment_slice P (st\<lparr>np_random := g\<rparr>) r2)"
proof (cases "truthy (points r1) \<or> truthy (boxes r1)")
  case True
  have "fst (generate_demo_mask P (np_random st) (slice_shape r2) (points r2) (boxes r2)) =
        fst (generate_demo_mask P g (slice_shape r2) (points r2) (boxes r2))"
    by (rule generate_demo_mask_any_state)
  then show ?thesis
    using True assms by (simp add: segment_slice_demo)
next
  case False
  then show ?thesis using assms by (simp add: segment_slice_invalid)
qed

lemma demo_request_response:
  "fst (segment_slice ref_platform demo_server demo_request) =
     Inr \<lparr>mask_rle = [(0, 16)], mask_shape = [4, 4], confidence = Some (3 / 4),
          contours = Some []\<rparr>"
  by code_simp

lemma demo_request_malformed:
  "decode_slice ref_platform (slice_data demo_request) (slice_shape demo_request) =
     Inl (HTTPException 400 (Failed_to_decode_slice ValueError))"
  by code_simp

lemma loaded_request_fails:
  "fst (segment_slice ref_platform loaded_server demo_request) =
     Inl (HTTPException 500 (Segmentation_failed
            (HTTPException 400 (Failed_to_decode_slice ValueError))))"
  by code_simp

text \<open>
  C8. Demo determinism: two calls of the demo mask generator with the same shape, points
  and boxes give the same result, whatever the state of numpy's global generator is
  before each call, because every call seeds the generator from the centre before it
  draws. This holds for \<^verbatim>\<open>generate_demo_mask\<close> of main.py and for
  \<^verbatim>\<open>_generate_demo_mask\<close> of predictor.py.
\<close>
theorem demo_determinism:
  "fst (generate_demo_mask P g1 shp pts bxs) = fst (generate_demo_mask P g2 shp pts bxs) \<and>
   fst (predictor_generate_demo_mask P g1 shp' pr) =
     fst (predictor_generate_demo_mask P g2 shp' pr)"
  using generate_demo_mask_any_state [of P g1 shp pts bxs g2]
    predictor_generate_demo_mask_any_state [of P g1 shp' pr g2]
  by simp

theorem demo_determinism_witness:
  "fst (generate_demo_mask ref_platform 7 [4, 4] (points demo_request) None) =
     fst (generate_demo_mask ref_platform 2024 [4, 4] (points demo_request) None) \<and>
   fst (predictor_generate_demo_mask ref_platform 7 [4, 4] (build_prompt demo_request)) =
     fst (predictor_generate_demo_mask ref_platform 2024 [4, 4] (build_prompt demo_request))"
  by (rule demo_determinism)

text \<open>
  C9. Demo-path noninterference: when no model is loaded, the outcome of \<^verbatim>\<open>segment_slice\<close>
  is a function of \<^verbatim>\<open>slice_shape\<close>, \<^verbatim>\<open>points\<close> and \<^verbatim>\<open>boxes\<close> only. Two requests that
  agree on these three fields give the same response (or the same error), whatever
  their slice buffers, window settings and the state of the generator are.
\<close>
theorem demo_noninterference:
  assumes "\<not> predictor_is_loaded st"
    and "slice_shape r1 = slice_shape r2" and "points r1 = points r2" and "boxes r1 = boxes r2"
  shows "fst (segment_slice P st r1) = fst (segment_slice P (st\<lparr>np_random := g\<rparr>) r2)"
  using assms by (rule segment_slice_demo_agree)

theorem demo_noninterference_witness:
  "\<not> predictor_is_loaded demo_server \<and>
   slice_shape demo_request = slice_shape (demo_request\<lparr>slice_data := ''not base64''\<rparr>) \<and>
   points demo_request = points (demo_request\<lparr>slice_data := ''not base64''\<rparr>) \<and>
   boxes demo_request = boxes (demo_request\<lparr>slice_data := ''not base64''\<rparr>) \<and>
   fst (segment_slice ref_platform demo_server demo_request) =
     fst (segment_slice ref_platform (demo_server\<lparr>np_random := 2024\<rparr>)
            (demo_request\<lparr>slice_data := ''not base64''\<rparr>))"
proof -
  have a: "\<not> predictor_is_loaded demo_server"
    by (simp add: predictor_is_loaded_def demo_server_def)
  show ?thesis
    using a demo_noninterference [OF a, of demo_request
        "demo_request\<lparr>slice_data := ''not base64''\<rparr>" ref_platform 2024]
    by simp
qed

subsection \<open>The seed\<close>

lemma np_random_seed_mod: "\<exists>g. np_random_seed P (n mod 2 ^ 31) = Inr g"
proof -
  have "0 \<le> n mod 2 ^ 31" by simp
  moreover have "n mod 2 ^ 31 < 2 ^ 31" by simp
  then have "n mod 2 ^ 31 < 2 ^ 32" by simp
  ultimately show ?thesis by (simp add: np_random_seed_def)
qed

lemma generate_demo_mask_seed:
  assumes "0 \<le> H" and "0 \<le> W"
    and "demo_center P H W pts bxs = (cx, cy)" and "demo_seed P cx cy = Inr n"
  shows "(n < 0 \<or> 2 ^ 32 \<le> n \<longrightarrow> generate_demo_mask P g [H, W] pts bxs = (Inl ValueError, g)) \<and>
         (0 \<le> n \<and> n < 2 ^ 32 \<longrightarrow> (\<exists>m. fst (generate_demo_mask P g [H, W] pts bxs) = Inr m))"
  using assms
  by (auto simp: generate_demo_mask_def np_random_seed_def Let_def split: prod.splits)

lemma predictor_generate_demo_mask_seed:
  assumes "predictor_center P H W pr = Inr (cx, cy)" and "demo_seed P cx cy = Inr n"
  shows "\<exists>m. fst (predictor_generate_demo_mask P g [H, W] pr) = Inr m"
proof -
  obtain g1 where "np_random_seed P (n mod 2 ^ 31) = Inr g1"
    using np_random_seed_mod [of P n] by blast
  then show ?thesis using assms
    by (simp add: predictor_generate_demo_mask_def Let_def split: prod.splits)
qed

text \<open>
  C10. Seed-domain safety: let \<open>n\<close> be the value \<^verbatim>\<open>int(cx * 100 + cy * 10)\<close> for the
  centre that the prompts of a request with a well-formed shape select. If \<open>n\<close> is
  negative or at least \<open>2^32\<close>, seeding fails in \<^verbatim>\<open>generate_demo_mask\<close> of main.py
  with \<^verbatim>\<open>ValueError\<close> and \<^verbatim>\<open>segment_slice\<close> in demo mode raises it instead of returning a
  mask; if \<open>n\<close> is in range the mask is returned. The generator of predictor.py, which
  reduces the seed modulo \<open>2^31\<close>, returns a mask for the same centre whatever \<open>n\<close> is.
\<close>
theorem seed_domain_safety:
  assumes "0 \<le> H" and "0 \<le> W"
    and "demo_center P H W pts bxs = (cx, cy)" and "demo_seed P cx cy = Inr n"
  shows "(n < 0 \<or> 2 ^ 32 \<le> n \<longrightarrow>
            fst (generate_demo_mask P g [H, W] pts bxs) = Inl ValueError \<and>
            (\<forall>st request.
               \<not> predictor_is_loaded st \<and> (truthy pts \<or> truthy bxs) \<and>
               slice_shape request = [H, W] \<and> points request = pts \<and> boxes request = bxs \<longrightarrow>
               fst (segment_slice P st request) = Inl (Raised ValueError))) \<and>
         (0 \<le> n \<and> n < 2 ^ 32 \<longrightarrow> (\<exists>m. fst (generate_demo_mask P g [H, W] pts bxs) = Inr m)) \<and>
         (\<forall>g' H' W' pr. predictor_center P H' W' pr = Inr (cx, cy) \<longrightarrow>
            (\<exists>m. fst (predictor_generate_demo_mask P g' [H', W'] pr) = Inr m))"
proof -
  have bad: "fst (generate_demo_mask P g' [H, W] pts bxs) = Inl ValueError"
    if "n < 0 \<or> 2 ^ 32 \<le> n" for g'
    using generate_demo_mask_seed [OF assms, of g'] that by auto
  have seg: "fst (segment_slice P st request) = Inl (Raised ValueError)"
    if "n < 0 \<or> 2 ^ 32 \<le> n" and "\<not> predictor_is_loaded st" and "truthy pts \<or> truthy bxs"
      and "slice_shape request = [H, W]" and "points request = pts" and "boxes request = bxs"
    for st :: "'b server" and request
    using that bad [of "np_random st"] by (simp add: segment_slice_demo)
  have good: "0 \<le> n \<and> n < 2 ^ 32 \<longrightarrow>
      (\<exists>m. fst (generate_demo_mask P g [H, W] pts bxs) = Inr m)"
    using generate_demo_mask_seed [OF assms, of g] by simp
  have pred: "\<exists>m. fst (predictor_generate_demo_mask P g' [H', W'] pr) = Inr m"
    if "predictor_center P H' W' pr = Inr (cx, cy)" for g' H' W' pr
    using predictor_generate_demo_mask_seed [OF that assms(4)] .
  show ?thesis using bad seg good pred by blast
qed

theorem seed_domain_safety_witness:
  "(0::int) \<le> 100 \<and>
   demo_center ref_platform 100 100 (points negative_point_request) None =
     (Some (- 1), Some (- 1)) \<and>
   demo_seed ref_platform (Some (- 1)) (Some (- 1)) = Inr (- 110) \<and>
   (- 110 :: int) < 0 \<and>
   fst (generate_demo_mask ref_platform 7 [100, 100] (points negative_point_request) None) =
     Inl ValueError \<and>
   \<not> predictor_is_loaded demo_server \<and>
   fst (segment_slice ref_platform demo_server negative_point_request) = Inl (Raised ValueError) \<and>
   predictor_center ref_platform 4 4 (build_prompt negative_point_request) =
     Inr (Some (- 1), Some (- 1)) \<and>
   (\<exists>m. fst (predictor_generate_demo_mask ref_platform 7 [4, 4]
              (build_prompt negative_point_request)) = Inr m)"
proof -
  have h: "(0::int) \<le> 100" by simp
  have c: "demo_center ref_platform 100 100 (points negative_point_request) None =
      (Some (- 1), Some (- 1))"
    by (simp add: demo_center_def negative_point_request_def)
  have s: "demo_seed ref_platform (Some (- 1)) (Some (- 1)) = Inr (- 110)"
    by (simp add: demo_seed_def ref_platform_def)
  have l: "\<not> predictor_is_loaded demo_server"
    by (simp add: predictor_is_loaded_def demo_server_def)
  have p: "predictor_center ref_platform 4 4 (build_prompt negative_point_request) =
      Inr (Some (- 1), Some (- 1))"
    by (simp add: predictor_center_def build_prompt_def negative_point_request_def)
  have r: "truthy (points negative_point_request) \<and>
      slice_shape negative_point_request = [100, 100] \<and>
      boxes negative_point_request = None"
    by (simp add: negative_point_request_def)
  note t = seed_domain_safety [OF h h c s, of 7]
  from t have "fst (generate_demo_mask ref_platform 7 [100, 100]
      (points negative_point_request) None) = Inl ValueError"
    by simp
  moreover from t l r
  have "fst (segment_slice ref_platform demo_server negative_point_request) =
      Inl (Raised ValueError)"
    by simp
  moreover from t p
  have "\<exists>m. fst (predictor_generate_demo_mask ref_platform 7 [4, 4]
      (build_prompt negative_point_request)) = Inr m"
    by blast
  ultimately show ?thesis using c s l p by simp
qed

subsection \<open>Malformed slice buffers\<close>

lemma decode_slice_error:
  "decode_slice P dat shp = Inl e \<Longrightarrow> \<exists>x. e = HTTPException 400 (Failed_to_decode_slice x)"
  by (auto simp: decode_slice_def split: sum.splits)

lemma segment_slice_loaded_malformed:
  assumes "predictor_is_loaded st" and "truthy (points request) \<or> truthy (boxes request)"
    and "decode_slice P (slice_data request) (slice_shape request) = Inl e"
  shows "fst (segment_slice P st request) = Inl (HTTPException 500 (Segmentation_failed e))"
  using assms by (auto simp: segment_slice_def)

lemma respond_status: "status_code (respond P m c) \<noteq> 400"
  by (simp add: respond_def split: sum.splits)

lemma segment_slice_demo_status:
  assumes "\<not> predictor_is_loaded st" and "truthy (points request) \<or> truthy (boxes request)"
  shows "status_code (fst (segment_slice P st request)) \<noteq> 400"
  using assms by (simp add: segment_slice_demo respond_status split: sum.splits)

text \<open>
  C2, amended. For every request with at least one prompt whose slice buffer is
  malformed, that is, on which \<^verbatim>\<open>decode_slice\<close> fails: \<^verbatim>\<open>decode_slice\<close> fails with an
  \<^verbatim>\<open>HTTPException\<close> of status 400; when the model is loaded, \<^verbatim>\<open>segment_slice\<close> fails;
  in demo mode the buffer is never decoded, so the answer does not have status 400 and
  is the same as for every other slice buffer.
\<close>
theorem malformed_slice_handling:
  assumes "decode_slice P (slice_data request) (slice_shape request) = Inl e"
    and "truthy (points request) \<or> truthy (boxes request)"
  shows "(\<exists>x. e = HTTPException 400 (Failed_to_decode_slice x)) \<and>
         (predictor_is_loaded st \<longrightarrow> isl (fst (segment_slice P st request))) \<and>
         (\<not> predictor_is_loaded st \<longrightarrow>
            status_code (fst (segment_slice P st request)) \<noteq> 400 \<and>
            (\<forall>d. fst (segment_slice P st request) =
                  fst (segment_slice P st (request\<lparr>slice_data := d\<rparr>))))"
proof -
  have "\<exists>x. e = HTTPException 400 (Failed_to_decode_slice x)"
    using assms(1) by (rule decode_slice_error)
  moreover have "isl (fst (segment_slice P st request))" if "predictor_is_loaded st"
    using segment_slice_loaded_malformed [OF that assms(2) assms(1)] by simp
  moreover have "status_code (fst (segment_slice P st request)) \<noteq> 400"
    if "\<not> predictor_is_loaded st"
    using that assms(2) by (rule segment_slice_demo_status)
  moreover have "fst (segment_slice P st request) =
      fst (segment_slice P st (request\<lparr>slice_data := d\<rparr>))"
    if "\<not> predictor_is_loaded st" for d
    using segment_slice_demo_agree [OF that, of request "request\<lparr>slice_data := d\<rparr>" P
        "np_random st"]
    by simp
  ultimately show ?thesis by blast
qed

theorem malformed_slice_handling_witness:
  "decode_slice ref_platform (slice_data demo_request) (slice_shape demo_request) =
     Inl (HTTPException 400 (Failed_to_decode_slice ValueError)) \<and>
   truthy (points demo_request) \<and>
   predictor_is_loaded loaded_server \<and>
   isl (fst (segment_slice ref_platform loaded_server demo_request)) \<and>
   \<not> predictor_is_loaded demo_server \<and>
   status_code (fst (segment_slice ref_platform demo_server demo_request)) \<noteq> 400 \<and>
   fst (segment_slice ref_platform demo_server demo_request) =
     fst (segment_slice ref_platform demo_server (demo_request\<lparr>slice_data := ''AAA''\<rparr>))"
proof -
  have p: "truthy (points demo_request) \<or> truthy (boxes demo_request)"
    by (simp add: demo_request_def)
  have l: "predictor_is_loaded loaded_server"
    by (simp add: predictor_is_loaded_def loaded_server_def)
  have d: "\<not> predictor_is_loaded demo_server"
    by (simp add: predictor_is_loaded_def demo_server_def)
  show ?thesis
    using malformed_slice_handling [OF demo_request_malformed p, of loaded_server]
      malformed_slice_handling [OF demo_request_malformed p, of demo_server]
      demo_request_malformed l d
    by (simp add: demo_request_def)
qed

text \<open>
  The claim as the specification states it fails in demo mode: the buffer of
  \<open>demo_request\<close> does not fit its shape, and the request is answered with a response.
\<close>

theorem malformed_slice_demo_counterexample:
  "decode_slice ref_platform (slice_data demo_request) (slice_shape demo_request) =
     Inl (HTTPException 400 (Failed_to_decode_slice ValueError)) \<and>
   predictor demo_server = None \<and>
   fst (segment_slice ref_platform demo_server demo_request) =
     Inr \<lparr>mask_rle = [(0, 16)], mask_shape = [4, 4], confidence = Some (3 / 4),
          contours = Some []\<rparr>"
  using demo_request_malformed demo_request_response by (simp add: demo_server_def)

subsection \<open>Contours in the response\<close>

lemma respond_contours:
  "respond P m c = Inr resp \<Longrightarrow>
     \<exists>cs. contours resp = Some cs \<and> find_contours P m = Inr cs \<and>
          mask_rle resp = mask_to_rle m \<and> mask_shape resp = shape m"
  by (auto simp: respond_def split: sum.splits)

lemma find_contours_without_cv2: "cv2 P = None \<Longrightarrow> find_contours P m = Inr []"
  by (simp add: find_contours_def)

lemma segment_slice_response:
  "fst (segment_slice P st request) = Inr resp \<Longrightarrow> \<exists>m c. respond P m c = Inr resp"
  by (auto simp: segment_slice_def Let_def split: if_splits sum.splits prod.splits)

text \<open>
  C3, amended. In every response of \<^verbatim>\<open>segment_slice\<close> the \<^verbatim>\<open>contours\<close> field is present:
  it holds what \<^verbatim>\<open>find_contours\<close> returns for the mask of the response, which is the
  empty sequence when OpenCV is not available.
\<close>
theorem contours_always_present:
  assumes "fst (segment_slice P st request) = Inr resp"
  shows "\<exists>cs m. contours resp = Some cs \<and>
           mask_rle resp = mask_to_rle m \<and> mask_shape resp = shape m \<and>
           find_contours P m = Inr cs \<and> (cv2 P = None \<longrightarrow> cs = [])"
proof -
  obtain m c where r: "respond P m c = Inr resp"
    using segment_slice_response [OF assms] by blast
  obtain cs where cs: "contours resp = Some cs" "find_contours P m = Inr cs"
      "mask_rle resp = mask_to_rle m" "mask_shape resp = shape m"
    using respond_contours [OF r] by blast
  have e: "cv2 P = None \<longrightarrow> cs = []"
    using find_contours_without_cv2 [of P m] cs(2) by auto
  from cs e show ?thesis by (intro exI [of _ cs] exI [of _ m]) simp
qed

theorem contours_always_present_witness:
  "fst (segment_slice ref_platform demo_server demo_request) =
     Inr \<lparr>mask_rle = [(0, 16)], mask_shape = [4, 4], confidence = Some (3 / 4),
          contours = Some []\<rparr> \<and>
   cv2 ref_platform = None \<and>
   (\<exists>cs. contours \<lparr>mask_rle = [(0, 16)], mask_shape = [4, 4], confidence = Some (3 / 4 :: rat),
             contours = Some []\<rparr> = Some cs \<and> cs = [])"
  using contours_always_present [OF demo_request_response] demo_request_response
  by (simp add: ref_platform_def)

text \<open>
  The claim as the specification states it fails: without OpenCV the field is present
  and empty, and the response is the one that a platform with OpenCV gives for the same
  request, whose mask has no contour.
\<close>

theorem contours_absent_counterexample:
  "cv2 ref_platform = None \<and>
   fst (segment_slice ref_platform demo_server demo_request) =
     Inr \<lparr>mask_rle = [(0, 16)], mask_shape = [4, 4], confidence = Some (3 / 4),
          contours = Some []\<rparr> \<and>
   cv2 cv2_platform = Some empty_mask_finder \<and>
   fst (segment_slice cv2_platform demo_server demo_request) =
     Inr \<lparr>mask_rle = [(0, 16)], mask_shape = [4, 4], confidence = Some (3 / 4),
          contours = Some []\<rparr>"
proof -
  have "fst (segment_slice cv2_platform demo_server demo_request) =
     Inr \<lparr>mask_rle = [(0, 16)], mask_shape = [4, 4], confidence = Some (3 / 4),
          contours = Some []\<rparr>"
    by code_simp
  then show ?thesis
    using demo_request_response by (simp add: ref_platform_def cv2_platform_def)
qed

subsection \<open>The health check\<close>

text \<open>
  C4. \<^verbatim>\<open>health_check\<close> should report the mode \<^verbatim>\<open>"demo"\<close> for a predictor object that
  exists but failed to load its model. Evaluated on a host where the checkpoint exists
  and loading fails, the code reports \<^verbatim>\<open>model_loaded\<close> false and the mode
  \<^verbatim>\<open>"production"\<close>.
\<close>
theorem health_mode_after_failed_load:
  "lifespan failed_load_host =
     Some \<lparr>device = ''cpu'', image_size = Some 1008, model = None, model_loaded = False\<rparr> \<and>
   \<not> predictor_is_loaded \<lparr>predictor = lifespan failed_load_host, np_random = (0::int)\<rparr> \<and>
   health_check \<lparr>predictor = lifespan failed_load_host, np_random = (0::int)\<rparr> =
     \<lparr>health_status = ''healthy'', health_model_loaded = False, health_mode = ''production''\<rparr>"
  by (simp add: lifespan_def init_def load_model_def failed_load_host_def health_check_def
      predictor_is_loaded_def)

subsection \<open>The centre of the demo mask\<close>

lemma fg_points_build:
  "fg_points (map (\<lambda>p. (pt_x p, pt_y p)) ps) (map label ps) =
     Inr (map (\<lambda>p. (pt_x p, pt_y p)) (filter (\<lambda>p. label p = 1) ps))"
  by (induction ps) simp_all

lemma predictor_center_build_prompt:
  "predictor_center P H W (build_prompt request) =
     Inr (demo_center P (int H) (int W) (points request) (boxes request))"
proof (cases "truthy (points request)")
  case True
  then obtain ps where ps: "points request = Some ps" "ps \<noteq> []"
    by (cases "points request") auto
  show ?thesis
    using ps
    by (simp add: predictor_center_def build_prompt_def demo_center_def fg_points_build
        split: list.splits)
next
  case False
  show ?thesis
  proof (cases "truthy (boxes request)")
    case True
    then obtain bs where bs: "boxes request = Some bs" "bs \<noteq> []"
      by (cases "boxes request") auto
    then obtain b bs' where "bs = b # bs'" by (cases bs) auto
    with bs False show ?thesis
      by (simp add: predictor_center_def build_prompt_def demo_center_def)
  next
    case b: False
    with False show ?thesis
      by (simp add: predictor_center_def build_prompt_def demo_center_def)
  qed
qed

text \<open>
  C5, amended. The centre of the ellipse is the first point with label 1 when there is
  one; otherwise, when the point list is empty or absent and there is a box, it is the
  centre \<open>((x1 + x2) / 2, (y1 + y2) / 2)\<close> of the first box; otherwise, which includes
  every request with only background points, it is the slice centre \<open>(W / 2, H / 2)\<close>.
  The generator of predictor.py selects the same centre for the prompt that the
  endpoint builds.
\<close>
theorem demo_center_selection:
  "(\<forall>p ps. filter (\<lambda>p. label p = 1) (case pts of None \<Rightarrow> [] | Some xs \<Rightarrow> xs) = p # ps \<longrightarrow>
      demo_center P H W pts bxs = (pt_x p, pt_y p)) \<and>
   (\<forall>box bs. \<not> truthy pts \<and> bxs = Some (box # bs) \<longrightarrow>
      demo_center P H W pts bxs =
        (f_div P (f_add P (box_x1 box) (box_x2 box)) (f_of_int P 2),
         f_div P (f_add P (box_y1 box) (box_y2 box)) (f_of_int P 2))) \<and>
   (filter (\<lambda>p. label p = 1) (case pts of None \<Rightarrow> [] | Some xs \<Rightarrow> xs) = [] \<and>
    (truthy pts \<or> \<not> truthy bxs) \<longrightarrow>
      demo_center P H W pts bxs = (int_truediv P W 2, int_truediv P H 2)) \<and>
   (\<forall>request H' W'. points request = pts \<and> boxes request = bxs \<and> H = int H' \<and> W = int W' \<longrightarrow>
      predictor_center P H' W' (build_prompt request) = Inr (demo_center P H W pts bxs))"
proof -
  have a: "demo_center P H W pts bxs = (pt_x p, pt_y p)"
    if "filter (\<lambda>p. label p = 1) (case pts of None \<Rightarrow> [] | Some xs \<Rightarrow> xs) = p # ps" for p ps
    using that by (cases pts) (auto simp: demo_center_def)
  have b: "demo_center P H W pts bxs =
        (f_div P (f_add P (box_x1 box) (box_x2 box)) (f_of_int P 2),
         f_div P (f_add P (box_y1 box) (box_y2 box)) (f_of_int P 2))"
    if "\<not> truthy pts" and "bxs = Some (box # bs)" for box bs
    using that by (simp add: demo_center_def)
  have c: "demo_center P H W pts bxs = (int_truediv P W 2, int_truediv P H 2)"
    if "filter (\<lambda>p. label p = 1) (case pts of None \<Rightarrow> [] | Some xs \<Rightarrow> xs) = []"
      and "truthy pts \<or> \<not> truthy bxs"
    using that by (cases pts) (auto simp: demo_center_def)
  have d: "predictor_center P H' W' (build_prompt request) = Inr (demo_center P H W pts bxs)"
    if "points request = pts" and "boxes request = bxs" and "H = int H'" and "W = int W'"
    for request H' W'
    using that predictor_center_build_prompt [of P H' W' request] by simp
  show ?thesis using a b c d by blast
qed

text \<open>
  The claim as the specification states it fails for a request with one background
  point and one box: both generators use the slice centre, not the centre of the box.
\<close>

theorem demo_center_counterexample:
  "demo_center ref_platform 100 100 (points background_point_request)
     (boxes background_point_request) = (Some 50, Some 50) \<and>
   predictor_center ref_platform 100 100 (build_prompt background_point_request) =
     Inr (Some 50, Some 50) \<and>
   claimed_center ref_platform 100 100 (points background_point_request)
     (boxes background_point_request) = (Some 30, Some 30)"
  by (simp add: demo_center_def predictor_center_def build_prompt_def claimed_center_def
      background_point_request_def ref_platform_def)

theorem demo_center_selection_witness:
  "filter (\<lambda>p. label p = 1) (case points demo_request of None \<Rightarrow> [] | Some xs \<Rightarrow> xs) =
     [\<lparr>pt_x = Some 1, pt_y = Some 1, label = 1\<rparr>] \<and>
   demo_center ref_platform 4 4 (points demo_request) (boxes demo_request) = (Some 1, Some 1) \<and>
   filter (\<lambda>p. label p = 1)
     (case points background_point_request of None \<Rightarrow> [] | Some xs \<Rightarrow> xs) = [] \<and>
   truthy (points background_point_request) \<and>
   demo_center ref_platform 100 100 (points background_point_request)
     (boxes background_point_request) = (Some 50, Some 50) \<and>
   \<not> truthy None \<and>
   demo_center ref_platform 100 100 None (boxes background_point_request) =
     (Some 30, Some 30) \<and>
   predictor_center ref_platform 100 100 (build_prompt background_point_request) =
     Inr (Some 50, Some 50)"
proof -
  have f: "filter (\<lambda>p. label p = 1) (case points demo_request of None \<Rightarrow> [] | Some xs \<Rightarrow> xs) =
      [\<lparr>pt_x = Some 1, pt_y = Some 1, label = 1\<rparr>]"
    by (simp add: demo_request_def)
  have n: "filter (\<lambda>p. label p = 1)
      (case points background_point_request of None \<Rightarrow> [] | Some xs \<Rightarrow> xs) = []"
    by (simp add: background_point_request_def)
  have t: "truthy (points background_point_request)"
    by (simp add: background_point_request_def)
  have b: "boxes background_point_request =
      Some [\<lparr>box_x1 = Some 20, box_y1 = Some 20, box_x2 = Some 40, box_y2 = Some 40\<rparr>]"
    by (simp add: background_point_request_def)
  have "demo_center ref_platform 4 4 (points demo_request) (boxes demo_request) =
      (Some 1, Some 1)"
    using demo_center_selection [of "points demo_request" ref_platform 4 4 "boxes demo_request"] f
    by simp
  moreover have "demo_center ref_platform 100 100 (points background_point_request)
      (boxes background_point_request) = (Some 50, Some 50)"
    using demo_center_selection [of "points background_point_request" ref_platform 100 100
        "boxes background_point_request"] n t
    by (simp add: ref_platform_def)
  moreover have "demo_center ref_platform 100 100 None (boxes background_point_request) =
      (Some 30, Some 30)"
    using demo_center_selection [of None ref_platform 100 100
        "boxes background_point_request"] b
    by (simp add: ref_platform_def)
  moreover have "predictor_center ref_platform 100 100 (build_prompt background_point_request) =
      Inr (Some 50, Some 50)"
    using demo_center_selection [of "points background_point_request" ref_platform 100 100
        "boxes background_point_request"] calculation(2)
    by (metis of_nat_numeral)
  ultimately show ?thesis using f n t by simp
qed

subsection \<open>Prompt validation\<close>

lemma segment_slice_loaded:
  assumes "predictor_is_loaded st" and "truthy (points request) \<or> truthy (boxes request)"
    and "decode_slice P (slice_data request) (slice_shape request) = Inr a"
    and "fst (predictor_segment_slice P (np_random st) (the (predictor st)) a
           (build_prompt request) (window_center request) (window_width request)) = Inr m"
  shows "fst (segment_slice P st request) = respond P m (f_dec P 85 2)"
  using assms by (auto simp: segment_slice_def split: prod.splits sum.splits)

text \<open>
  C6. A request without points and boxes fails with \<^verbatim>\<open>HTTPException\<close> 400 before any
  computation, and a request with at least one point or box should return the response
  envelope. Evaluated on a well-formed request with one foreground point at
  \<open>(-1, -1)\<close>, whose buffer fits its shape: without a loaded model \<^verbatim>\<open>segment_slice\<close>
  raises the \<^verbatim>\<open>ValueError\<close> of \<^verbatim>\<open>np.random.seed\<close>, since \<^verbatim>\<open>generate_demo_mask\<close> of
  main.py passes the seed \<open>-110\<close> as it is; with a loaded model the same request returns
  the envelope, since \<^verbatim>\<open>_generate_demo_mask\<close> of predictor.py reduces the seed modulo
  \<open>2^31\<close>.
\<close>
theorem prompt_accepted_request_raises:
  "segment_slice ref_platform demo_server empty_request =
     (Inl (HTTPException 400 Must_provide_points_or_boxes), demo_server) \<and>
   truthy (points seed_failure_request) \<and>
   decode_slice ref_platform (slice_data seed_failure_request)
     (slice_shape seed_failure_request) = Inr \<lparr>shape = [1, 1], data = [0]\<rparr> \<and>
   predictor demo_server = None \<and>
   fst (segment_slice ref_platform demo_server seed_failure_request) = Inl (Raised ValueError) \<and>
   status_code (fst (segment_slice ref_platform demo_server seed_failure_request)) = 500 \<and>
   predictor_is_loaded loaded_server \<and>
   fst (segment_slice ref_platform loaded_server seed_failure_request) =
     Inr \<lparr>mask_rle = [(0, 1)], mask_shape = [1, 1], confidence = Some (17 / 20),
          contours = Some []\<rparr>"
proof -
  have a: "segment_slice ref_platform demo_server empty_request =
      (Inl (HTTPException 400 Must_provide_points_or_boxes), demo_server)"
    by (simp add: segment_slice_invalid empty_request_def)
  have t: "truthy (points seed_failure_request) \<or> truthy (boxes seed_failure_request)"
    by (simp add: seed_failure_request_def)
  have l: "predictor_is_loaded loaded_server"
    by (simp add: predictor_is_loaded_def loaded_server_def)
  have b: "decode_slice ref_platform (slice_data seed_failure_request)
      (slice_shape seed_failure_request) = Inr \<lparr>shape = [1, 1], data = [0]\<rparr>"
    by code_simp
  have c: "fst (segment_slice ref_platform demo_server seed_failure_request) =
      Inl (Raised ValueError)"
    by code_simp
  have m: "fst (predictor_generate_demo_mask ref_platform 7 [1, 1]
      (build_prompt seed_failure_request)) = Inr \<lparr>shape = [1, 1], data = [False]\<rparr>"
    by (simp add: predictor_generate_demo_mask_def predictor_center_def build_prompt_def
        seed_failure_request_def demo_seed_def ref_platform_def np_random_seed_def dist_grid_def
        perturb_def Let_def split: prod.splits)
  have p: "fst (predictor_segment_slice ref_platform (np_random loaded_server)
      (the (predictor loaded_server)) \<lparr>shape = [1, 1], data = [0]\<rparr>
      (build_prompt seed_failure_request) (window_center seed_failure_request)
      (window_width seed_failure_request)) = Inr \<lparr>shape = [1, 1], data = [False]\<rparr>"
    using m by (simp add: predictor_segment_slice_def loaded_server_def)
  have r: "respond ref_platform \<lparr>shape = [1, 1], data = [False]\<rparr> (f_dec ref_platform 85 2) =
      Inr \<lparr>mask_rle = [(0, 1)], mask_shape = [1, 1], confidence = Some (17 / 20),
           contours = Some []\<rparr>"
    by (simp add: respond_def find_contours_def ref_platform_def mask_to_rle_scan
        astype_uint8_def)
  have d: "fst (segment_slice ref_platform loaded_server seed_failure_request) =
      Inr \<lparr>mask_rle = [(0, 1)], mask_shape = [1, 1], confidence = Some (17 / 20),
           contours = Some []\<rparr>"
    using segment_slice_loaded [OF l t b p] r by simp
  show ?thesis
    using a b c d l
    by (simp add: seed_failure_request_def demo_server_def)
qed

end
